theory Spec2Isabelle
  imports Main
begin

section \<open>Values, columns and tables\<close>

text \<open>
  The two functions of \<^verbatim>\<open>normalize_table.py\<close> work on pandas DataFrames. A DataFrame is
  modelled as the ordered list of its named columns; a column (a pandas Series) carries
  its dtype and its values. The row index is positional throughout the source (every
  intermediate table is passed through \<^verbatim>\<open>reset_index(drop=True)\<close>), so it is not stored.

  A value is null (\<^verbatim>\<open>None\<close>/\<^verbatim>\<open>NaN\<close>/\<^verbatim>\<open>pd.NA\<close>), a Python \<^verbatim>\<open>str\<close>, a Python \<^verbatim>\<open>int\<close>,
  or a container (\<^verbatim>\<open>list\<close>, \<^verbatim>\<open>set\<close> or \<^verbatim>\<open>tuple\<close>) of strings. A set is stored in the order
  in which Python iterates it. Characters are code points below 256.
\<close>

datatype seq_kind = PyList | PySet | PyTuple

datatype cell = Null | Str string | Num int | Seq seq_kind "string list"

datatype dtype = ObjectT | Int64T | StringT

record series =
  dtype :: dtype
  vals :: "cell list"

type_synonym frame = "(string \<times> series) list"

text \<open>
  Every exception the two functions can end with. The first group are the
  \<^verbatim>\<open>raise ValueError(...)\<close> statements of the source, one constructor per message; the
  \<^verbatim>\<open>TypeError\<close> of the \<^verbatim>\<open>isinstance\<close> test has no constructor because the argument of the
  model is a table by its type. The second group are the exceptions raised inside pandas
  and Python.
\<close>

datatype error =
    EmptyFrame
  | TooFewRows
  | ColumnNotFound string
  | NotStringType string
  | OnlyNull string
  | AllUnique string
  | OneUnique string
  | Multivalued string
  | Unhashable
  | KeyError string
  | LabelNotUnique string
  | MergeDtypes
  | MergeDuplicateColumns
  | MergeNoSuffix
  | EmptySeparator

definition is_validation_error :: "error \<Rightarrow> bool" where
  "is_validation_error e =
     (case e of
        EmptyFrame \<Rightarrow> True | TooFewRows \<Rightarrow> True | ColumnNotFound _ \<Rightarrow> True
      | NotStringType _ \<Rightarrow> True | OnlyNull _ \<Rightarrow> True | AllUnique _ \<Rightarrow> True
      | OneUnique _ \<Rightarrow> True | Multivalued _ \<Rightarrow> True | _ \<Rightarrow> False)"

definition names :: "frame \<Rightarrow> string list" where
  "names f = map fst f"

definition nrows :: "frame \<Rightarrow> nat" where
  "nrows f = (case f of [] \<Rightarrow> 0 | (n, s) # _ \<Rightarrow> length (vals s))"

definition is_empty :: "frame \<Rightarrow> bool" where
  "is_empty f = (f = [] \<or> nrows f = 0)"

definition cell_ok :: "dtype \<Rightarrow> cell \<Rightarrow> bool" where
  "cell_ok d c =
     (case d of
        Int64T \<Rightarrow> (case c of Num _ \<Rightarrow> True | _ \<Rightarrow> False)
      | StringT \<Rightarrow> (case c of Null \<Rightarrow> True | Str _ \<Rightarrow> True | _ \<Rightarrow> False)
      | ObjectT \<Rightarrow> (case c of Num _ \<Rightarrow> False | _ \<Rightarrow> True))"

text \<open>
  A well-formed table: distinct column labels, columns of one length, and in every
  column values of the column's dtype (integers in an \<^verbatim>\<open>int64\<close> column, strings and
  nulls in a \<^verbatim>\<open>string\<close> column, strings, containers and nulls in an \<^verbatim>\<open>object\<close> column).
\<close>

definition wf :: "frame \<Rightarrow> bool" where
  "wf f = (distinct (names f)
           \<and> list_all (\<lambda>(n, s). length (vals s) = nrows f) f
           \<and> list_all (\<lambda>(n, s). list_all (cell_ok (dtype s)) (vals s)) f)"

section \<open>Python strings\<close>

text \<open>\<^verbatim>\<open>str.split(sep)\<close> for a non-empty separator: cut at every occurrence, left to right.\<close>

function split_on :: "string \<Rightarrow> string \<Rightarrow> string \<Rightarrow> string list" where
  "split_on sep acc [] = [rev acc]"
| "split_on sep acc (c # cs) =
     (if sep \<noteq> [] \<and> take (length sep) (c # cs) = sep
      then rev acc # split_on sep [] (drop (length sep) (c # cs))
      else split_on sep (c # acc) cs)"
  by pat_completeness auto
termination
  by (relation "measure (\<lambda>(sep, acc, s). length s)") auto

definition isspace :: "char \<Rightarrow> bool" where
  "isspace c = (let n = (of_char c :: nat)
                in (9 \<le> n \<and> n \<le> 13) \<or> (28 \<le> n \<and> n \<le> 32) \<or> n = 133 \<or> n = 160)"

definition strip :: "string \<Rightarrow> string" where
  "strip s = rev (dropWhile isspace (rev (dropWhile isspace s)))"

text \<open>\<^verbatim>\<open>str(n)\<close> for an integer.\<close>

function show_nat :: "nat \<Rightarrow> string" where
  "show_nat n = (if n < 10 then [char_of (48 + n)]
                 else show_nat (n div 10) @ [char_of (48 + n mod 10)])"
  by pat_completeness auto
termination
  by (relation "measure id") auto

definition show_int :: "int \<Rightarrow> string" where
  "show_int i = (if i < 0 then CHR ''-'' # show_nat (nat (- i)) else show_nat (nat i))"

text \<open>\<^verbatim>\<open>repr(s)\<close> for a string, and \<^verbatim>\<open>str(x)\<close> for a container of strings.\<close>

definition printable :: "char \<Rightarrow> bool" where
  "printable c = (let n = (of_char c :: nat)
                  in (32 \<le> n \<and> n < 127) \<or> (161 \<le> n \<and> n \<noteq> 173))"

definition hex_digit :: "nat \<Rightarrow> char" where
  "hex_digit n = (if n < 10 then char_of (48 + n) else char_of (87 + n))"

definition escape_char :: "char \<Rightarrow> char \<Rightarrow> string" where
  "escape_char q c =
     (if c = q \<or> c = CHR 0x5C then [CHR 0x5C, c]
      else if c = CHR 0x09 then [CHR 0x5C, CHR ''t'']
      else if c = CHR 0x0A then [CHR 0x5C, CHR ''n'']
      else if c = CHR 0x0D then [CHR 0x5C, CHR ''r'']
      else if printable c then [c]
      else [CHR 0x5C, CHR ''x'', hex_digit ((of_char c :: nat) div 16),
            hex_digit ((of_char c :: nat) mod 16)])"

definition py_repr :: "string \<Rightarrow> string" where
  "py_repr s =
     (let q = (if CHR 0x27 \<in> set s \<and> CHR 0x22 \<notin> set s then CHR 0x22 else CHR 0x27)
      in q # concat (map (escape_char q) s) @ [q])"

fun join_comma :: "string list \<Rightarrow> string" where
  "join_comma [] = []"
| "join_comma [x] = x"
| "join_comma (x # y # ys) = x @ '', '' @ join_comma (y # ys)"

definition py_str_seq :: "seq_kind \<Rightarrow> string list \<Rightarrow> string" where
  "py_str_seq k xs =
     (case k of
        PyList \<Rightarrow> ''['' @ join_comma (map py_repr xs) @ '']''
      | PyTuple \<Rightarrow> ''('' @ join_comma (map py_repr xs) @ (if length xs = 1 then '','' else '''') @ '')''
      | PySet \<Rightarrow> (if xs = [] then ''set()'' else ''{'' @ join_comma (map py_repr xs) @ ''}''))"

section \<open>The pandas operations used by the source\<close>

definition isnull :: "cell \<Rightarrow> bool" where
  "isnull c = (c = Null)"

text \<open>Lists and sets are unhashable in Python; everything else here can be hashed.\<close>

definition hashable :: "cell \<Rightarrow> bool" where
  "hashable c = (case c of Seq PyList _ \<Rightarrow> False | Seq PySet _ \<Rightarrow> False | _ \<Rightarrow> True)"

text \<open>
  \<^verbatim>\<open>Series.nunique()\<close>: the number of distinct non-null values. pandas counts them with
  a hash table, so a list or a set among the values raises \<^verbatim>\<open>TypeError: unhashable type\<close>.
\<close>

definition nunique :: "series \<Rightarrow> error + nat" where
  "nunique s =
     (if list_all hashable (vals s)
      then Inr (length (remdups (filter (\<lambda>c. \<not> isnull c) (vals s))))
      else Inl Unhashable)"

text \<open>Row \<open>i\<close> of a table, and the table made of the rows at the given positions.\<close>

definition row_at :: "frame \<Rightarrow> nat \<Rightarrow> cell list" where
  "row_at f i = map (\<lambda>(n, s). vals s ! i) f"

definition take_rows :: "nat list \<Rightarrow> frame \<Rightarrow> frame" where
  "take_rows idx f = map (\<lambda>(n, s). (n, s\<lparr>vals := map (\<lambda>i. vals s ! i) idx\<rparr>)) f"

text \<open>
  \<^verbatim>\<open>drop_duplicates()\<close> keeps the first occurrence of every row (nulls compare equal to
  each other); \<open>first_occ seen i xs\<close> lists the positions, counted from \<open>i\<close>, of the
  elements of \<open>xs\<close> that occur neither in \<open>seen\<close> nor earlier in \<open>xs\<close>. pandas hashes
  the values, so a list or a set in the table raises \<^verbatim>\<open>TypeError\<close>.
\<close>

fun first_occ :: "'a list \<Rightarrow> nat \<Rightarrow> 'a list \<Rightarrow> nat list" where
  "first_occ seen i [] = []"
| "first_occ seen i (x # xs) =
     (if x \<in> set seen then first_occ seen (Suc i) xs
      else i # first_occ (x # seen) (Suc i) xs)"

definition drop_duplicates :: "frame \<Rightarrow> error + frame" where
  "drop_duplicates f =
     (if list_all (\<lambda>(n, s). list_all hashable (vals s)) f
      then Inr (take_rows (first_occ [] 0 (map (row_at f) [0..<nrows f])) f)
      else Inl Unhashable)"

text \<open>\<^verbatim>\<open>df[[c1, ..., cn]]\<close>: the columns with these labels, \<^verbatim>\<open>KeyError\<close> if one is missing.\<close>

definition select_cols :: "frame \<Rightarrow> string list \<Rightarrow> error + frame" where
  "select_cols f ns =
     (case filter (\<lambda>n. n \<notin> set (names f)) ns of
        [] \<Rightarrow> Inr (concat (map (\<lambda>n. filter (\<lambda>(m, s). m = n) f) ns))
      | n # _ \<Rightarrow> Inl (KeyError n))"

text \<open>
  \<^verbatim>\<open>df[c] = s\<close>: replaces the column labelled \<open>c\<close> where it stands, or appends a new
  last column.
\<close>

definition set_column :: "frame \<Rightarrow> string \<Rightarrow> series \<Rightarrow> frame" where
  "set_column f c s =
     (if c \<in> set (names f) then map (\<lambda>(n, x). if n = c then (n, s) else (n, x)) f
      else f @ [(c, s)])"

text \<open>
  \<^verbatim>\<open>df[c] = g(df[c])\<close> for a column that is present (each use below follows a test or a
  construction that makes it so).
\<close>

definition map_column :: "(series \<Rightarrow> series) \<Rightarrow> string \<Rightarrow> frame \<Rightarrow> frame" where
  "map_column g c f = map (\<lambda>(n, x). if n = c then (n, g x) else (n, x)) f"

text \<open>\<^verbatim>\<open>fillna('Unknown')\<close>, and the equivalent \<^verbatim>\<open>.loc[isnull, c] = 'Unknown'\<close>.\<close>

definition fillna_unknown :: "series \<Rightarrow> series" where
  "fillna_unknown s = s\<lparr>vals := map (\<lambda>c. if isnull c then Str ''Unknown'' else c) (vals s)\<rparr>"

text \<open>\<^verbatim>\<open>astype('string')\<close>: every value that is neither null nor a string goes through \<^verbatim>\<open>str\<close>.\<close>

definition py_str :: "cell \<Rightarrow> cell" where
  "py_str c =
     (case c of
        Null \<Rightarrow> Null
      | Str s \<Rightarrow> Str s
      | Num i \<Rightarrow> Str (show_int i)
      | Seq k xs \<Rightarrow> Str (py_str_seq k xs))"

definition astype_string :: "series \<Rightarrow> series" where
  "astype_string s = \<lparr>dtype = StringT, vals = map py_str (vals s)\<rparr>"

text \<open>\<^verbatim>\<open>t.index + 1\<close> after \<^verbatim>\<open>reset_index(drop=True)\<close>: the integers from 1 to the row count.\<close>

definition index_plus_one :: "frame \<Rightarrow> series" where
  "index_plus_one f = \<lparr>dtype = Int64T, vals = map (\<lambda>i. Num (int i + 1)) [0..<nrows f]\<rparr>"

text \<open>\<^verbatim>\<open>rename(columns={...})\<close> and \<^verbatim>\<open>drop(columns=[c])\<close>.\<close>

definition rename_cols :: "(string \<times> string) list \<Rightarrow> frame \<Rightarrow> frame" where
  "rename_cols ren f =
     map (\<lambda>(n, s). (case map_of ren n of Some n' \<Rightarrow> n' | None \<Rightarrow> n, s)) f"

definition drop_cols :: "frame \<Rightarrow> string \<Rightarrow> error + frame" where
  "drop_cols f c =
     (if c \<in> set (names f) then Inr (filter (\<lambda>(n, s). n \<noteq> c) f) else Inl (KeyError c))"

text \<open>
  \<^verbatim>\<open>explode(c)\<close>: a container becomes one row per element, an empty container one row
  with a null, anything else stays; the other columns repeat their value. A column whose
  dtype is not \<^verbatim>\<open>object\<close> is returned as it is.
\<close>

definition cell_items :: "cell \<Rightarrow> cell list" where
  "cell_items c = (case c of Seq k xs \<Rightarrow> (if xs = [] then [Null] else map Str xs) | _ \<Rightarrow> [c])"

definition explode :: "frame \<Rightarrow> string \<Rightarrow> error + frame" where
  "explode f c =
     (case map_of f c of
        None \<Rightarrow> Inl (KeyError c)
      | Some s \<Rightarrow>
          (if dtype s = ObjectT
           then (let parts = map cell_items (vals s);
                     idx = concat (map (\<lambda>(i, p). replicate (length p) i) (zip [0..<length parts] parts))
                 in Inr (set_column (take_rows idx f) c \<lparr>dtype = ObjectT, vals = concat parts\<rparr>))
           else Inr f))"

text \<open>
  \<^verbatim>\<open>left.merge(right, on=c, suffixes=(ls, rs))\<close>, an inner join on one column.
  \<^item> The key must be a label of both tables (\<^verbatim>\<open>KeyError\<close>) and must be unique in each.
  \<^item> pandas refuses to join an integer key with a string or object key, and it hashes the
    key values, so a list or a set among them raises \<^verbatim>\<open>TypeError\<close>.
  \<^item> The key column of the right table is dropped; a label that remains in both tables
    gets the suffix of its side. Two empty suffixes are refused, and so is a suffixed label
    that repeats another label of its own side.
  \<^item> The result has one row for every pair of a left and a right row with equal keys
    (null equals null), in the order of the left rows, then of the right rows.
\<close>

definition add_suffix :: "string list \<Rightarrow> string \<Rightarrow> string \<Rightarrow> string" where
  "add_suffix overlap suffix n = (if n \<in> set overlap then n @ suffix else n)"

definition duplicated :: "'a list \<Rightarrow> bool list" where
  "duplicated xs = map (\<lambda>i. xs ! i \<in> set (take i xs)) [0..<length xs]"

definition suffix_dups :: "string list \<Rightarrow> string list \<Rightarrow> bool" where
  "suffix_dups new old =
     list_ex (\<lambda>(a, b). a \<and> \<not> b) (zip (duplicated new) (duplicated old))"

definition is_numeric :: "dtype \<Rightarrow> bool" where
  "is_numeric d = (d = Int64T)"

definition join_pairs :: "cell list \<Rightarrow> cell list \<Rightarrow> (nat \<times> nat) list" where
  "join_pairs lk rk =
     concat (map (\<lambda>i. map (\<lambda>j. (i, j)) (filter (\<lambda>j. lk ! i = rk ! j) [0..<length rk]))
                 [0..<length lk])"

definition merge :: "frame \<Rightarrow> frame \<Rightarrow> string \<Rightarrow> string \<times> string \<Rightarrow> error + frame" where
  "merge l r c suffixes =
     (case (map_of l c, map_of r c) of
        (None, _) \<Rightarrow> Inl (KeyError c)
      | (Some lk, None) \<Rightarrow> Inl (KeyError c)
      | (Some lk, Some rk) \<Rightarrow>
          (if length (filter (\<lambda>n. n = c) (names l)) = 1 \<and> length (filter (\<lambda>n. n = c) (names r)) = 1
           then
             (if is_numeric (dtype lk) = is_numeric (dtype rk)
              then
                (let r' = filter (\<lambda>(n, s). n \<noteq> c) r;
                     overlap = filter (\<lambda>n. n \<in> set (names r')) (names l);
                     llabels = map (add_suffix overlap (fst suffixes)) (names l);
                     rlabels = map (add_suffix overlap (snd suffixes)) (names r');
                     pairs = join_pairs (vals lk) (vals rk)
                 in if list_ex (\<lambda>v. \<not> hashable v) (vals lk @ vals rk) then Inl Unhashable
                    else if overlap \<noteq> [] \<and> fst suffixes = [] \<and> snd suffixes = [] then Inl MergeNoSuffix
                    else if suffix_dups llabels (names l) then Inl MergeDuplicateColumns
                    else if suffix_dups rlabels (names r') then Inl MergeDuplicateColumns
                    else Inr (zip llabels (map snd (take_rows (map fst pairs) l))
                              @ zip rlabels (map snd (take_rows (map snd pairs) r'))))
              else Inl MergeDtypes)
           else Inl (LabelNotUnique c)))"

section \<open>The one-to-many splitter\<close>

text \<open>
  The tests of lines 25 to 40 of \<^verbatim>\<open>split_with_foreign_key\<close>, in the order of the source;
  \<open>None\<close> when all of them pass. \<^verbatim>\<open>dtype not in [object, str]\<close> holds for every dtype
  but \<^verbatim>\<open>object\<close>. \<^verbatim>\<open>nunique()\<close> is called before the container test of line 39 and
  raises on its own for lists and sets. The container test looks at the first row only.
\<close>

definition is_container :: "cell \<Rightarrow> bool" where
  "is_container c = (case c of Seq _ _ \<Rightarrow> True | _ \<Rightarrow> False)"

definition validate_one_to_many :: "frame \<Rightarrow> string \<Rightarrow> error option" where
  "validate_one_to_many df key_col =
     (if is_empty df then Some EmptyFrame
      else if nrows df < 2 then Some TooFewRows
      else
        (case map_of df key_col of
           None \<Rightarrow> Some (ColumnNotFound key_col)
         | Some s \<Rightarrow>
            (if dtype s \<noteq> ObjectT then Some (NotStringType key_col)
             else if list_all isnull (vals s) then Some (OnlyNull key_col)
             else
               (case nunique s of
                  Inl e \<Rightarrow> Some e
                | Inr u \<Rightarrow>
                   (if u = nrows df then Some (AllUnique key_col)
                    else if u = 1 then Some (OneUnique key_col)
                    else if is_container (hd (vals s)) then Some (Multivalued key_col)
                    else None)))))"

text \<open>
  \<^verbatim>\<open>split_with_foreign_key(df, key_col)\<close>. The source assigns to \<^verbatim>\<open>df[key_col]\<close> (line 50),
  and \<^verbatim>\<open>df\<close> is the caller's object, so the model returns two things: the outcome of the
  call (the exception, or the pair \<^verbatim>\<open>(child, parent)\<close>) and the caller's table as it is
  after the call.
\<close>

definition split_with_foreign_key :: "frame \<Rightarrow> string \<Rightarrow> (error + frame \<times> frame) \<times> frame" where
  "split_with_foreign_key df key_col =
     (case validate_one_to_many df key_col of
        Some e \<Rightarrow> (Inl e, df)
      | None \<Rightarrow>
         (case select_cols df [key_col] of
            Inl e \<Rightarrow> (Inl e, df)
          | Inr sel \<Rightarrow>
             (case drop_duplicates sel of
                Inl e \<Rightarrow> (Inl e, df)
              | Inr parent0 \<Rightarrow>
                 (let parent1 = map_column astype_string key_col parent0;
                      parent2 = set_column parent1 ''id'' (index_plus_one parent1);
                      df' = map_column fillna_unknown key_col df;
                      parent = map_column fillna_unknown key_col parent2
                  in (case merge df' parent key_col ([], ''_parent'') of
                        Inl e \<Rightarrow> (Inl e, df')
                      | Inr m \<Rightarrow>
                         (case drop_cols (rename_cols [(''id_parent'', key_col @ ''_id'')] m) key_col of
                            Inl e \<Rightarrow> (Inl e, df')
                          | Inr child \<Rightarrow> (Inr (child, parent), df')))))))"

section \<open>The many-to-many splitter\<close>

text \<open>The tests of lines 86 to 99 of \<^verbatim>\<open>split_many_to_many\<close>, in the order of the source.\<close>

definition validate_many_to_many :: "frame \<Rightarrow> string \<Rightarrow> string \<Rightarrow> error option" where
  "validate_many_to_many df left_col right_col =
     (if is_empty df then Some EmptyFrame
      else if nrows df < 2 then Some TooFewRows
      else
        (case map_of df left_col of
           None \<Rightarrow> Some (ColumnNotFound left_col)
         | Some ls \<Rightarrow>
            (case map_of df right_col of
               None \<Rightarrow> Some (ColumnNotFound right_col)
             | Some rs \<Rightarrow>
                (if list_all isnull (vals ls) then Some (OnlyNull left_col)
                 else if list_all isnull (vals rs) then Some (OnlyNull right_col)
                 else
                   (case nunique rs of
                      Inl e \<Rightarrow> Some e
                    | Inr u \<Rightarrow> (if u = nrows df then Some (AllUnique right_col) else None))))))"

text \<open>
  Lines 103 to 107: with a separator, every string of \<^verbatim>\<open>right_col\<close> becomes the list of
  its stripped pieces and every other value stays. The work is done on a copy
  (\<^verbatim>\<open>df = df.copy()\<close>). \<^verbatim>\<open>x.split('')\<close> raises \<^verbatim>\<open>ValueError: empty separator\<close>.
\<close>

definition split_cell :: "string \<Rightarrow> cell \<Rightarrow> cell" where
  "split_cell sep c = (case c of Str x \<Rightarrow> Seq PyList (map strip (split_on sep [] x)) | _ \<Rightarrow> c)"

definition is_str :: "cell \<Rightarrow> bool" where
  "is_str c = (case c of Str _ \<Rightarrow> True | _ \<Rightarrow> False)"

definition split_series :: "string \<Rightarrow> series \<Rightarrow> series" where
  "split_series sep s =
     \<lparr>dtype = (if dtype s = Int64T then Int64T else ObjectT), vals = map (split_cell sep) (vals s)\<rparr>"

definition normalize_right :: "frame \<Rightarrow> string \<Rightarrow> string option \<Rightarrow> error + frame" where
  "normalize_right df right_col sep =
     (case sep of
        None \<Rightarrow> Inr df
      | Some sp \<Rightarrow>
          (case map_of df right_col of
             None \<Rightarrow> Inl (KeyError right_col)
           | Some s \<Rightarrow>
               (if sp = [] \<and> list_ex is_str (vals s) then Inl EmptySeparator
                else Inr (map_column (split_series sp) right_col df))))"

text \<open>
  Lines 120 to 127: the distinct exploded values, numbered from 1, then converted to
  \<^verbatim>\<open>string\<close>, then the null replaced by \<^verbatim>\<open>'Unknown'\<close>.
\<close>

definition build_right :: "frame \<Rightarrow> string \<Rightarrow> error + frame" where
  "build_right df_exploded right_col =
     (case select_cols df_exploded [right_col] of
        Inl e \<Rightarrow> Inl e
      | Inr sel \<Rightarrow>
         (case drop_duplicates sel of
            Inl e \<Rightarrow> Inl e
          | Inr right0 \<Rightarrow>
              (let right1 = set_column right0 ''id'' (index_plus_one right0);
                   right2 = map_column astype_string right_col right1
               in Inr (map_column fillna_unknown right_col right2))))"

text \<open>Lines 131 to 139: the two joins, the projection on the two ids, and the renaming.\<close>

definition build_junction :: "frame \<Rightarrow> frame \<Rightarrow> frame \<Rightarrow> string \<Rightarrow> string \<Rightarrow> error + frame" where
  "build_junction df_exploded left right left_col right_col =
     (case merge df_exploded left left_col (''_x'', ''_y'') of
        Inl e \<Rightarrow> Inl e
      | Inr m1 \<Rightarrow>
         (case merge m1 right right_col (''_left'', ''_right'') of
            Inl e \<Rightarrow> Inl e
          | Inr m2 \<Rightarrow>
             (case select_cols m2 [''id_left'', ''id_right''] of
                Inl e \<Rightarrow> Inl e
              | Inr sel \<Rightarrow>
                 (case drop_duplicates sel of
                    Inl e \<Rightarrow> Inl e
                  | Inr j \<Rightarrow>
                      Inr (rename_cols [(''id_right'', right_col @ ''_id''), (''id_left'', ''title_id'')] j)))))"

text \<open>
  \<^verbatim>\<open>split_many_to_many(df, left_col, right_col, sep)\<close>: the outcome of the call (the
  exception, or \<^verbatim>\<open>(left, right, junction)\<close>) and the caller's table after the call. The
  only assignment to a column is made on the copy of line 104.
\<close>

definition split_many_to_many ::
  "frame \<Rightarrow> string \<Rightarrow> string \<Rightarrow> string option \<Rightarrow> (error + frame \<times> frame \<times> frame) \<times> frame" where
  "split_many_to_many df left_col right_col sep =
     (case validate_many_to_many df left_col right_col of
        Some e \<Rightarrow> (Inl e, df)
      | None \<Rightarrow>
         (case normalize_right df right_col sep of
            Inl e \<Rightarrow> (Inl e, df)
          | Inr df1 \<Rightarrow>
             (case explode df1 right_col of
                Inl e \<Rightarrow> (Inl e, df)
              | Inr df_exploded \<Rightarrow>
                 (case select_cols df1 (filter (\<lambda>c. c \<noteq> right_col) (names df1)) of
                    Inl e \<Rightarrow> (Inl e, df)
                  | Inr sel \<Rightarrow>
                     (case drop_duplicates sel of
                        Inl e \<Rightarrow> (Inl e, df)
                      | Inr left \<Rightarrow>
                         (case build_right df_exploded right_col of
                            Inl e \<Rightarrow> (Inl e, df)
                          | Inr right \<Rightarrow>
                             (case build_junction df_exploded left right left_col right_col of
                                Inl e \<Rightarrow> (Inl e, df)
                              | Inr junction \<Rightarrow> (Inr (left, right, junction), df))))))))"

section \<open>Example tables\<close>

definition titles :: frame where
  "titles =
     [(''id'', \<lparr>dtype = Int64T, vals = [Num 1, Num 2, Num 3, Num 4]\<rparr>),
      (''type'', \<lparr>dtype = ObjectT,
                 vals = [Str ''Movie'', Str ''TV Show'', Str ''Movie'', Str ''Movie'']\<rparr>),
      (''cast'', \<lparr>dtype = ObjectT,
                 vals = [Str ''Anna, Ben, Anna'', Str ''Ben'', Str ''Ben'', Null]\<rparr>)]"

definition titles_unknown_rating :: frame where
  "titles_unknown_rating =
     [(''id'', \<lparr>dtype = Int64T, vals = [Num 1, Num 2, Num 3, Num 4]\<rparr>),
      (''rating'', \<lparr>dtype = ObjectT, vals = [Null, Str ''Unknown'', Str ''PG'', Str ''PG'']\<rparr>)]"

definition titles_null_type :: frame where
  "titles_null_type =
     [(''id'', \<lparr>dtype = Int64T, vals = [Num 1, Num 2, Num 3, Num 4]\<rparr>),
      (''type'', \<lparr>dtype = ObjectT, vals = [Null, Str ''Movie'', Str ''Movie'', Str ''TV Show'']\<rparr>)]"

definition titles_null_country :: frame where
  "titles_null_country =
     [(''id'', \<lparr>dtype = Int64T, vals = [Num 1, Num 2, Num 3]\<rparr>),
      (''country'', \<lparr>dtype = ObjectT, vals = [Null, Str ''India'', Str ''India'']\<rparr>)]"

definition titles_without_id :: frame where
  "titles_without_id =
     [(''title'', \<lparr>dtype = ObjectT, vals = [Str ''A'', Str ''B'', Str ''C'', Str ''D'']\<rparr>),
      (''type'', \<lparr>dtype = ObjectT,
                 vals = [Str ''Movie'', Str ''TV Show'', Str ''Movie'', Str ''Movie'']\<rparr>)]"

definition left_right_labels :: frame where
  "left_right_labels =
     [(''id_left'', \<lparr>dtype = Int64T, vals = [Num 1, Num 2, Num 3]\<rparr>),
      (''id_right'', \<lparr>dtype = ObjectT, vals = [Str ''a, b'', Str ''a'', Str ''a'']\<rparr>)]"

definition students :: frame where
  "students =
     [(''student_name'', \<lparr>dtype = ObjectT, vals = [Str ''Ann'', Str ''Bob'', Str ''Cid'']\<rparr>),
      (''course_name'', \<lparr>dtype = ObjectT,
                        vals = [Str ''Math,History'', Str ''Math'', Str ''Math'']\<rparr>)]"

definition titles_genre_lists :: frame where
  "titles_genre_lists =
     [(''id'', \<lparr>dtype = Int64T, vals = [Num 1, Num 2, Num 3]\<rparr>),
      (''genre'', \<lparr>dtype = ObjectT,
                  vals = [Seq PyList [''Drama'', ''Comedy''], Seq PyList [''Drama''],
                          Seq PyList [''Drama'']]\<rparr>)]"

definition titles_genre_tuples :: frame where
  "titles_genre_tuples =
     [(''id'', \<lparr>dtype = Int64T, vals = [Num 1, Num 2]\<rparr>),
      (''genre'', \<lparr>dtype = ObjectT,
                  vals = [Seq PyTuple [''Drama'', ''Comedy''], Seq PyTuple [''Drama'']]\<rparr>)]"

definition titles_listed_in :: frame where
  "titles_listed_in =
     [(''id'', \<lparr>dtype = Int64T, vals = [Num 1, Num 2, Num 3]\<rparr>),
      (''listed_in'', \<lparr>dtype = ObjectT,
                      vals = [Seq PyList [''Dramas'', ''Comedies''], Seq PyList [''Dramas''], Null]\<rparr>)]"

definition titles_null_ids :: frame where
  "titles_null_ids =
     [(''id'', \<lparr>dtype = ObjectT, vals = [Null, Null, Null]\<rparr>),
      (''country'', \<lparr>dtype = ObjectT, vals = [Str ''India'', Str ''India'', Str ''Japan'']\<rparr>)]"

section \<open>Facts about the operations\<close>



lemma names_map_column [simp]: "names (map_column g c f) = names f"
  by (induction f) (auto simp: names_def map_column_def)

lemma names_take_rows [simp]: "names (take_rows idx f) = names f"
  by (induction f) (auto simp: names_def take_rows_def)


lemma map_of_set_column_same [simp]: "map_of (set_column f c s) c = Some s"
proof (cases "c \<in> set (names f)")
  case True
  then show ?thesis
    by (induction f) (auto simp: set_column_def names_def)
next
  case False
  then have "map_of f c = None"
    by (simp add: names_def map_of_eq_None_iff)
  with False show ?thesis
    by (simp add: set_column_def map_add_def[symmetric] map_add_Some_iff)
qed

lemma map_of_replace_other:
  "n \<noteq> c \<Longrightarrow> map_of (map (\<lambda>(m, x). if m = c then (m, s) else (m, x)) f) n = map_of f n"
  by (induction f) auto

lemma map_of_set_column_other: "n \<noteq> c \<Longrightarrow> map_of (set_column f c s) n = map_of f n"
  by (cases "map_of f n") (auto simp: set_column_def map_of_replace_other map_add_def[symmetric] map_add_Some_iff)



lemma length_index_plus_one [simp]: "length (vals (index_plus_one f)) = nrows f"
  by (simp add: index_plus_one_def)

lemma fillna_index_plus_one [simp]: "fillna_unknown (index_plus_one f) = index_plus_one f"
  by (simp add: fillna_unknown_def index_plus_one_def isnull_def)

lemma length_fillna [simp]: "length (vals (fillna_unknown s)) = length (vals s)"
  by (simp add: fillna_unknown_def)

lemma length_astype [simp]: "length (vals (astype_string s)) = length (vals s)"
  by (simp add: astype_string_def)




lemma names_filter: "names (filter (\<lambda>(n, s). P n) f) = filter P (names f)"
  by (induction f) (auto simp: names_def)

lemma length_take_rows [simp]: "length (take_rows idx f) = length f"
  by (simp add: take_rows_def)

lemma names_zip: "length ls = length f \<Longrightarrow> names (zip ls (map snd f)) = ls"
  by (simp add: names_def)

lemma names_append: "names (f @ g) = names f @ names g"
  by (simp add: names_def)

lemma merge_names:
  assumes "merge l r c sfx = Inr m"
  shows "names m =
           map (add_suffix (filter (\<lambda>n. n \<in> set (filter (\<lambda>n. n \<noteq> c) (names r))) (names l)) (fst sfx)) (names l)
           @ map (add_suffix (filter (\<lambda>n. n \<in> set (filter (\<lambda>n. n \<noteq> c) (names r))) (names l)) (snd sfx))
                 (filter (\<lambda>n. n \<noteq> c) (names r))"
proof -
  have len1: "length (names l) = length l"
    by (simp add: names_def)
  have "length (names (filter (\<lambda>(n, s). n \<noteq> c) r)) = length (filter (\<lambda>(n, s). n \<noteq> c) r)"
    by (simp add: names_def)
  then have len2: "length (filter (\<lambda>n. n \<noteq> c) (names r)) = length (filter (\<lambda>(n, s). n \<noteq> c) r)"
    by (simp only: names_filter)
  from assms show ?thesis
    unfolding merge_def Let_def
    by (auto split: option.splits if_splits simp: names_zip names_filter len1 len2 names_append)
qed


lemma drop_duplicates_names: "drop_duplicates f = Inr g \<Longrightarrow> names g = names f"
  by (auto simp: drop_duplicates_def split: if_splits)

lemma names_set_column_present: "c \<in> set (names f) \<Longrightarrow> names (set_column f c s) = names f"
  by (induction f) (auto simp: set_column_def names_def)

lemma explode_names: "explode f c = Inr g \<Longrightarrow> names g = names f"
proof -
  assume a: "explode f c = Inr g"
  show ?thesis
  proof (cases "map_of f c")
    case None
    with a show ?thesis by (simp add: explode_def)
  next
    case (Some s)
    then have "c \<in> set (names f)"
      by (metis map_of_eq_None_iff names_def option.distinct(1) set_map)
    then have "\<And>idx x. names (set_column (take_rows idx f) c x) = names f"
      by (simp add: names_set_column_present)
    with a Some show ?thesis
      by (auto simp: explode_def Let_def split: if_splits)
  qed
qed

lemma normalize_right_names: "normalize_right df r sep = Inr df1 \<Longrightarrow> names df1 = names df"
  by (auto simp: normalize_right_def split: option.splits if_splits)

lemma select_cols_set_names:
  assumes "select_cols f ns = Inr g"
  shows "set ns \<subseteq> set (names f)" and "set (names g) = set ns"
proof -
  from assms have e: "filter (\<lambda>n. n \<notin> set (names f)) ns = []"
    and g: "g = concat (map (\<lambda>n. filter (\<lambda>(m, s). m = n) f) ns)"
    by (auto simp: select_cols_def split: list.splits)
  from e show sub: "set ns \<subseteq> set (names f)"
    by (auto simp: filter_empty_conv)
  show "set (names g) = set ns"
  proof
    show "set (names g) \<subseteq> set ns"
      by (auto simp: g names_def)
    show "set ns \<subseteq> set (names g)"
    proof
      fix n assume n: "n \<in> set ns"
      with sub obtain s where "(n, s) \<in> set f"
        by (auto simp: names_def)
      with n show "n \<in> set (names g)"
        by (force simp: g names_def)
    qed
  qed
qed

lemma m2m_success:
  assumes "fst (split_many_to_many df l r sep) = Inr (left, right, junction)"
  obtains df1 dfe sel where
    "normalize_right df r sep = Inr df1" "explode df1 r = Inr dfe"
    "select_cols df1 (filter (\<lambda>c. c \<noteq> r) (names df1)) = Inr sel" "drop_duplicates sel = Inr left"
    "build_right dfe r = Inr right" "build_junction dfe left right l r = Inr junction"
  using assms
  by (auto simp: split_many_to_many_def split: option.splits sum.splits)

lemma build_right_shape:
  assumes "build_right dfe r = Inr right"
  obtains sel r0 where "select_cols dfe [r] = Inr sel" "drop_duplicates sel = Inr r0"
    "right = map_column fillna_unknown r (map_column astype_string r (set_column r0 ''id'' (index_plus_one r0)))"
  using assms
  by (auto simp: build_right_def Let_def split: sum.splits)

lemma build_junction_labels:
  assumes "build_junction dfe left right l r = Inr j"
  obtains m1 m2 where "merge dfe left l (''_x'', ''_y'') = Inr m1"
    "merge m1 right r (''_left'', ''_right'') = Inr m2"
    "''id_left'' \<in> set (names m2)" "''id_right'' \<in> set (names m2)"
proof -
  from assms obtain m1 m2 sel where m: "merge dfe left l (''_x'', ''_y'') = Inr m1"
    "merge m1 right r (''_left'', ''_right'') = Inr m2" "select_cols m2 [''id_left'', ''id_right''] = Inr sel"
    by (auto simp: build_junction_def split: sum.splits)
  from select_cols_set_names(1)[OF m(3)] have "''id_left'' \<in> set (names m2)" "''id_right'' \<in> set (names m2)"
    by auto
  with m that show thesis by blast
qed


lemma first_join_labels:
  assumes m: "merge dfe left l (''_x'', ''_y'') = Inr m1"
    and left: "set (names left) = set (names dfe) - {r}"
    and x: "x \<in> set (names m1)"
  shows "x = l \<or> x = r \<or> (\<exists>n. x = n @ ''_x'') \<or> (\<exists>n. x = n @ ''_y'')"
proof -
  let ?rest = "filter (\<lambda>n. n \<noteq> l) (names left)"
  let ?ov = "filter (\<lambda>n. n \<in> set ?rest) (names dfe)"
  from merge_names[OF m] x
  consider n where "n \<in> set (names dfe)" "x = add_suffix ?ov ''_x'' n"
    | n where "n \<in> set ?rest" "x = add_suffix ?ov ''_y'' n"
    by auto
  then show ?thesis
  proof cases
    case 1
    show ?thesis
    proof (cases "n \<in> set ?ov")
      case True
      with 1 show ?thesis by (simp add: add_suffix_def)
    next
      case False
      with 1 left have "n = l \<or> n = r" by auto
      with 1 False show ?thesis by (auto simp: add_suffix_def)
    qed
  next
    case 2
    with left have "n \<in> set ?ov" by auto
    with 2 show ?thesis by (simp add: add_suffix_def)
  qed
qed

lemma not_suffixed:
  "''id_left'' \<noteq> n @ ''_x''" "''id_left'' \<noteq> n @ ''_y''"
  "''id_right'' \<noteq> n @ ''_x''" "''id_right'' \<noteq> n @ ''_y''"
  "''id'' \<noteq> n @ ''_x''" "''id'' \<noteq> n @ ''_y''"
proof -
  have l: "\<And>a b. a = b \<Longrightarrow> last a = last b" by simp
  show "''id_left'' \<noteq> n @ ''_x''" using l[of "''id_left''" "n @ ''_x''"] by auto
  show "''id_left'' \<noteq> n @ ''_y''" using l[of "''id_left''" "n @ ''_y''"] by auto
  show "''id_right'' \<noteq> n @ ''_x''" using l[of "''id_right''" "n @ ''_x''"] by auto
  show "''id_right'' \<noteq> n @ ''_y''" using l[of "''id_right''" "n @ ''_y''"] by auto
  show "''id'' \<noteq> n @ ''_x''" using l[of "''id''" "n @ ''_x''"] by auto
  show "''id'' \<noteq> n @ ''_y''" using l[of "''id''" "n @ ''_y''"] by auto
qed

lemma right_col_not_id:
  assumes "fst (split_many_to_many df l r sep) = Inr (left, right, junction)"
  shows "r \<noteq> ''id''"
proof
  assume r: "r = ''id''"
  from assms obtain df1 dfe sel where s:
    "normalize_right df r sep = Inr df1" "explode df1 r = Inr dfe"
    "select_cols df1 (filter (\<lambda>c. c \<noteq> r) (names df1)) = Inr sel" "drop_duplicates sel = Inr left"
    "build_right dfe r = Inr right" "build_junction dfe left right l r = Inr junction"
    by (rule m2m_success)
  from s(5) obtain sel' r0 where b: "select_cols dfe [r] = Inr sel'" "drop_duplicates sel' = Inr r0"
    "right = map_column fillna_unknown r (map_column astype_string r (set_column r0 ''id'' (index_plus_one r0)))"
    by (rule build_right_shape)
  from s(6) obtain m1 m2 where j: "merge dfe left l (''_x'', ''_y'') = Inr m1"
    "merge m1 right r (''_left'', ''_right'') = Inr m2"
    "''id_left'' \<in> set (names m2)" "''id_right'' \<in> set (names m2)"
    by (rule build_junction_labels)
  have "set (names r0) = {r}"
    using select_cols_set_names(2)[OF b(1)] drop_duplicates_names[OF b(2)] by simp
  then have "names right = names r0"
    by (simp add: b(3) r names_set_column_present)
  with \<open>set (names r0) = {r}\<close> have "filter (\<lambda>n. n \<noteq> r) (names right) = []"
    by (auto simp: filter_empty_conv)
  moreover have "map (add_suffix [] ''_left'') (names m1) = names m1"
    by (induction "names m1") (simp_all add: add_suffix_def map_idI)
  ultimately have "names m2 = names m1"
    using merge_names[OF j(2)] by simp
  have "set (names left) = set (names dfe) - {r}"
    using select_cols_set_names(2)[OF s(3)] drop_duplicates_names[OF s(4)] explode_names[OF s(2)]
    by auto
  note lab = first_join_labels[OF j(1) this]
  from lab[of "''id_left''"] j(3) \<open>names m2 = names m1\<close> have "l = ''id_left''"
    by (auto simp: r not_suffixed)
  moreover from lab[of "''id_right''"] j(4) \<open>names m2 = names m1\<close> have "l = ''id_right''"
    by (auto simp: r not_suffixed)
  ultimately show False by simp
qed

lemma validate_left_all_null:
  assumes "map_of df left_col = Some s" and "list_all isnull (vals s)"
  shows "validate_many_to_many df left_col right_col =
           Some (if is_empty df then EmptyFrame
                 else if nrows df < 2 then TooFewRows
                 else if map_of df right_col = None then ColumnNotFound right_col
                 else OnlyNull left_col)"
  using assms by (auto simp: validate_many_to_many_def split: option.splits)

section \<open>The labels of the junction table\<close>

text \<open>
  The projection of line 135 needs the labels \<^verbatim>\<open>id_left\<close> and \<^verbatim>\<open>id_right\<close>. The second
  join produces them only from a column \<^verbatim>\<open>id\<close> on both sides, so the call returns only
  when the left key column is named \<^verbatim>\<open>id\<close>, or when the two columns of the input carry
  these two labels themselves (lemma \<open>left_key_must_be_id\<close>). With the left key named
  \<^verbatim>\<open>id\<close> and a right column named neither \<^verbatim>\<open>id_left\<close> nor \<^verbatim>\<open>id_right\<close>, the junction
  table has the two columns \<^verbatim>\<open>title_id\<close> and \<^verbatim>\<open>{right_col}_id\<close> (lemma \<open>junction_columns\<close>).
\<close>

lemma names_set_column_absent: "c \<notin> set (names f) \<Longrightarrow> names (set_column f c s) = names f @ [c]"
  by (simp add: set_column_def names_def)

lemma right_names:
  assumes "build_right dfe r = Inr right" and "r \<noteq> ''id''"
  shows "set (filter (\<lambda>n. n \<noteq> r) (names right)) = {''id''}"
proof -
  from assms(1) obtain sel' r0 where b: "select_cols dfe [r] = Inr sel'" "drop_duplicates sel' = Inr r0"
    "right = map_column fillna_unknown r (map_column astype_string r (set_column r0 ''id'' (index_plus_one r0)))"
    by (rule build_right_shape)
  have "set (names r0) = {r}"
    using select_cols_set_names(2)[OF b(1)] drop_duplicates_names[OF b(2)] by simp
  with assms(2) have "''id'' \<notin> set (names r0)" by auto
  then have "names right = names r0 @ [''id'']"
    by (simp add: b(3) names_set_column_absent)
  with \<open>set (names r0) = {r}\<close> assms(2) show ?thesis by auto
qed

lemma left_key_must_be_id:
  assumes "fst (split_many_to_many df l r sep) = Inr (left, right, junction)"
  shows "l = ''id'' \<or> (l = ''id_left'' \<and> r = ''id_right'') \<or> (l = ''id_right'' \<and> r = ''id_left'')"
proof -
  have rid: "r \<noteq> ''id''" using assms by (rule right_col_not_id)
  from assms obtain df1 dfe sel where s:
    "normalize_right df r sep = Inr df1" "explode df1 r = Inr dfe"
    "select_cols df1 (filter (\<lambda>c. c \<noteq> r) (names df1)) = Inr sel" "drop_duplicates sel = Inr left"
    "build_right dfe r = Inr right" "build_junction dfe left right l r = Inr junction"
    by (rule m2m_success)
  from s(6) obtain m1 m2 where j: "merge dfe left l (''_x'', ''_y'') = Inr m1"
    "merge m1 right r (''_left'', ''_right'') = Inr m2"
    "''id_left'' \<in> set (names m2)" "''id_right'' \<in> set (names m2)"
    by (rule build_junction_labels)
  have "set (names left) = set (names dfe) - {r}"
    using select_cols_set_names(2)[OF s(3)] drop_duplicates_names[OF s(4)] explode_names[OF s(2)]
    by auto
  note lab = first_join_labels[OF j(1) this]
  note rn = right_names[OF s(5) rid]
  let ?ov = "filter (\<lambda>n. n \<in> set (filter (\<lambda>n. n \<noteq> r) (names right))) (names m1)"
  have ov: "set ?ov \<subseteq> {''id''}" using rn by auto
  have m2: "set (names m2) \<subseteq> set (names m1) \<union> {''id_left'', ''id'', ''id_right''}"
    using merge_names[OF j(2)] rn ov by (auto simp: add_suffix_def)
  have idm1: "''id'' \<in> set (names m1) \<Longrightarrow> l = ''id''"
    using lab[of "''id''"] rid by (auto simp: not_suffixed)
  show ?thesis
  proof (cases "l = ''id''")
    case True
    then show ?thesis by simp
  next
    case False
    with idm1 have no: "''id'' \<notin> set (names m1)" by blast
    then have "?ov = []" using ov by (auto simp: filter_empty_conv)
    then have "names m2 = names m1 @ filter (\<lambda>n. n \<noteq> r) (names right)"
      using merge_names[OF j(2)] by (simp add: add_suffix_def map_idI)
    with rn j(3,4) have "''id_left'' \<in> set (names m1)" "''id_right'' \<in> set (names m1)"
      by auto
    with lab[of "''id_left''"] lab[of "''id_right''"] show ?thesis
      by (auto simp: not_suffixed)
  qed
qed


lemma select_cols_names:
  "select_cols f ns = Inr g \<Longrightarrow> names g = concat (map (\<lambda>n. filter (\<lambda>m. m = n) (names f)) ns)"
proof -
  have "\<And>n. map fst (filter (\<lambda>(m, s). m = n) f) = filter (\<lambda>m. m = n) (map fst f)"
    by (induction f) auto
  then show "select_cols f ns = Inr g \<Longrightarrow> ?thesis"
    by (auto simp: select_cols_def names_def map_concat comp_def split: list.splits)
qed

lemma names_rename_cols:
  "names (rename_cols ren f) = map (\<lambda>n. case map_of ren n of Some n' \<Rightarrow> n' | None \<Rightarrow> n) (names f)"
  by (induction f) (auto simp: rename_cols_def names_def split: option.splits)

lemma filter_eq_distinct:
  "distinct xs \<Longrightarrow> x \<in> set xs \<Longrightarrow> filter (\<lambda>m. m = x) xs = [x]"
  by (induction xs) (auto simp: filter_empty_conv)

lemma merge_key_present: "merge l r c sfx = Inr m \<Longrightarrow> c \<in> set (names l)"
  by (auto simp: merge_def names_def split: option.splits dest: map_of_SomeD)
     (metis fst_conv image_eqI map_of_SomeD)


lemma filter_map_single:
  assumes "distinct xs" and "a \<in> set xs" and "\<And>n. n \<in> set xs \<Longrightarrow> (h n = x) = (n = a)"
  shows "filter (\<lambda>m. m = x) (map h xs) = [x]"
  using assms
proof (induction xs)
  case Nil
  then show ?case by simp
next
  case (Cons y ys)
  show ?case
  proof (cases "y = a")
    case True
    with Cons.prems have "\<And>n. n \<in> set ys \<Longrightarrow> h n \<noteq> x" by auto
    then have "filter (\<lambda>m. m = x) (map h ys) = []" by (auto simp: filter_empty_conv)
    with True Cons.prems(3)[of y] show ?thesis by simp
  next
    case False
    with Cons.prems have "a \<in> set ys" "distinct ys" "h y \<noteq> x" by auto
    with Cons show ?thesis by simp
  qed
qed

lemma if_eqD: "(if a = b then c else a) = c \<Longrightarrow> a \<noteq> c \<Longrightarrow> a = b"
  by (auto split: if_splits)

lemma build_junction_shape:
  assumes "build_junction dfe left right l r = Inr j"
  obtains m1 m2 sel j0 where "merge dfe left l (''_x'', ''_y'') = Inr m1"
    "merge m1 right r (''_left'', ''_right'') = Inr m2"
    "select_cols m2 [''id_left'', ''id_right''] = Inr sel" "drop_duplicates sel = Inr j0"
    "j = rename_cols [(''id_right'', r @ ''_id''), (''id_left'', ''title_id'')] j0"
  using assms by (auto simp: build_junction_def split: sum.splits)

lemma junction_columns:
  assumes ok: "fst (split_many_to_many df l r sep) = Inr (left, right, junction)"
    and d: "distinct (names df)" and l: "l = ''id''" and r1: "r \<noteq> ''id_left''" and r2: "r \<noteq> ''id_right''"
  shows "names junction = [''title_id'', r @ ''_id'']"
proof -
  have rid: "r \<noteq> ''id''" using ok by (rule right_col_not_id)
  from ok obtain df1 dfe sel where s:
    "normalize_right df r sep = Inr df1" "explode df1 r = Inr dfe"
    "select_cols df1 (filter (\<lambda>c. c \<noteq> r) (names df1)) = Inr sel" "drop_duplicates sel = Inr left"
    "build_right dfe r = Inr right" "build_junction dfe left right l r = Inr junction"
    by (rule m2m_success)
  from s(6) obtain m1 m2 sel2 j0 where j: "merge dfe left l (''_x'', ''_y'') = Inr m1"
    "merge m1 right r (''_left'', ''_right'') = Inr m2"
    "select_cols m2 [''id_left'', ''id_right''] = Inr sel2" "drop_duplicates sel2 = Inr j0"
    "junction = rename_cols [(''id_right'', r @ ''_id''), (''id_left'', ''title_id'')] j0"
    by (rule build_junction_shape)
  have nd: "names dfe = names df"
    using explode_names[OF s(2)] normalize_right_names[OF s(1)] by simp
  have left: "set (names left) = set (names dfe) - {r}"
    using select_cols_set_names(2)[OF s(3)] drop_duplicates_names[OF s(4)] explode_names[OF s(2)]
    by auto
  note lab = first_join_labels[OF j(1) left]
  define rest where "rest = filter (\<lambda>n. n \<noteq> l) (names left)"
  define ov1 where "ov1 = filter (\<lambda>n. n \<in> set rest) (names dfe)"
  define g1 where "g1 = add_suffix ov1 ''_x''"
  define B where "B = map (add_suffix ov1 ''_y'') rest"
  have m1: "names m1 = map g1 (names dfe) @ B"
    using merge_names[OF j(1)] by (simp add: g1_def B_def ov1_def rest_def)
  have lin: "l \<in> set (names dfe)"
    using merge_key_present[OF j(1)] .
  have g1l: "g1 l = l" by (simp add: g1_def add_suffix_def ov1_def rest_def)
  with lin have idm1: "''id'' \<in> set (names m1)"
    unfolding m1 l by force
  have g1id: "\<And>n. g1 n = ''id'' \<Longrightarrow> n = ''id''"
    by (auto simp: g1_def add_suffix_def not_suffixed[symmetric] split: if_splits)
  have Bid: "\<And>y. y \<in> set B \<Longrightarrow> y \<noteq> ''id''"
  proof -
    fix y assume "y \<in> set B"
    then obtain n where n: "n \<in> set rest" "y = add_suffix ov1 ''_y'' n" by (auto simp: B_def)
    with left have "n \<in> set ov1" by (auto simp: ov1_def rest_def)
    with n have "y = n @ ''_y''" by (simp add: add_suffix_def)
    then show "y \<noteq> ''id''" by (simp add: not_suffixed[symmetric])
  qed
  \<comment> \<open>the right table has the two columns \<open>r\<close> and \<open>id\<close>\<close>
  from s(5) obtain sel' r0 where b: "select_cols dfe [r] = Inr sel'" "drop_duplicates sel' = Inr r0"
    "right = map_column fillna_unknown r (map_column astype_string r (set_column r0 ''id'' (index_plus_one r0)))"
    by (rule build_right_shape)
  have "r \<in> set (names dfe)" using select_cols_set_names(1)[OF b(1)] by simp
  then have "names r0 = [r]"
    using select_cols_names[OF b(1)] drop_duplicates_names[OF b(2)] d nd
    by (simp add: filter_eq_distinct)
  then have nr: "names right = [r, ''id'']"
    using rid by (simp add: b(3) names_set_column_absent)
  define ov2 where "ov2 = filter (\<lambda>n. n \<in> set (filter (\<lambda>n. n \<noteq> r) (names right))) (names m1)"
  define g2 where "g2 = add_suffix ov2 ''_left''"
  have ov2: "set ov2 = {''id''}" using nr rid idm1 by (auto simp: ov2_def)
  have "filter (\<lambda>n. n \<noteq> r) (names right) = [''id'']"
    using nr rid by simp
  then have m2: "names m2 = map g2 (names m1) @ [''id_right'']"
    using merge_names[OF j(2)] ov2 idm1 by (simp add: g2_def ov2_def add_suffix_def)
  have g2: "\<And>y. g2 y = (if y = ''id'' then ''id_left'' else y)"
    using ov2 by (simp add: g2_def add_suffix_def)
  have no_left: "''id_left'' \<notin> set (names m1)"
    using lab[of "''id_left''"] l r1 by (auto simp: not_suffixed)
  have no_right: "''id_right'' \<notin> set (names m1)"
    using lab[of "''id_right''"] l r2 by (auto simp: not_suffixed)
  have A: "filter (\<lambda>m. m = ''id_left'') (map (\<lambda>n. g2 (g1 n)) (names dfe)) = [''id_left'']"
  proof (rule filter_map_single[where a = "''id''"])
    show "distinct (names dfe)" using d nd by simp
    show "''id'' \<in> set (names dfe)" using lin l by simp
    fix n assume n: "n \<in> set (names dfe)"
    have y: "g1 n \<noteq> ''id_left''"
    proof
      assume "g1 n = ''id_left''"
      with n have "''id_left'' \<in> set (map g1 (names dfe))" by force
      with no_left show False unfolding m1 by simp
    qed
    show "(g2 (g1 n) = ''id_left'') = (n = ''id'')"
      using y g1id[of n] g1l l by (auto simp: g2)
  qed
  have B: "filter (\<lambda>m. m = ''id_left'') (map g2 B) = []"
    using Bid no_left unfolding m1 by (auto simp: filter_empty_conv g2)
  have C: "filter (\<lambda>m. m = ''id_right'') (map g2 (names m1)) = []"
    using no_right by (auto simp: filter_empty_conv g2)
  have AB: "filter (\<lambda>m. m = ''id_left'') (map g2 (names m1)) = [''id_left'']"
    using A B by (simp add: m1 comp_def)
  have "names sel2 = [''id_left'', ''id_right'']"
    unfolding select_cols_names[OF j(3)] m2 by (simp add: AB C)
  then have "names j0 = [''id_left'', ''id_right'']"
    using drop_duplicates_names[OF j(4)] by simp
  then show ?thesis
    by (simp add: j(5) names_rename_cols)
qed

section \<open>The claims\<close>

text \<open>The example tables are well-formed tables.\<close>

lemma examples_wf:
  "list_all wf [titles, titles_unknown_rating, titles_null_type, titles_null_country,
                titles_without_id, left_right_labels, students, titles_genre_lists,
                titles_genre_tuples, titles_listed_in, titles_null_ids]"
  by code_simp

text \<open>
  Claim C1: for every valid input, the child table returned by
  \<^verbatim>\<open>split_with_foreign_key\<close> has as many rows as the input, also when the key column holds
  both nulls and the literal string \<^verbatim>\<open>'Unknown'\<close>. The code removes duplicates (line 44)
  before it replaces the nulls (lines 50 and 51), so on such a column the parent table
  gets two rows \<^verbatim>\<open>'Unknown'\<close> and the join of line 56 doubles every row whose key is null
  or \<^verbatim>\<open>'Unknown'\<close>: the input below has 4 rows and its child table has 6.
\<close>

theorem row_count_unknown_collision:
  "fst (split_with_foreign_key titles_unknown_rating ''rating'') =
     Inr ([(''id'', \<lparr>dtype = Int64T, vals = [Num 1, Num 1, Num 2, Num 2, Num 3, Num 4]\<rparr>),
           (''rating_id'', \<lparr>dtype = Int64T, vals = [Num 1, Num 2, Num 1, Num 2, Num 3, Num 3]\<rparr>)],
          [(''rating'', \<lparr>dtype = StringT, vals = [Str ''Unknown'', Str ''Unknown'', Str ''PG'']\<rparr>),
           (''id'', \<lparr>dtype = Int64T, vals = [Num 1, Num 2, Num 3]\<rparr>)])
   \<and> nrows titles_unknown_rating = 4
   \<and> nrows [(''id'', \<lparr>dtype = Int64T, vals = [Num 1, Num 1, Num 2, Num 2, Num 3, Num 4]\<rparr>),
             (''rating_id'', \<lparr>dtype = Int64T, vals = [Num 1, Num 2, Num 1, Num 2, Num 3, Num 3]\<rparr>)] = 6"
  by code_simp

text \<open>
  Claim C2: neither function changes the table the caller passed in. Line 50 of
  \<^verbatim>\<open>split_with_foreign_key\<close> assigns the null-filled key column to the caller's own
  table (the other function copies the table first, line 104): after the call below the
  caller's \<^verbatim>\<open>type\<close> column holds \<^verbatim>\<open>'Unknown'\<close> where it held a null.
\<close>

theorem one_to_many_changes_input:
  "snd (split_with_foreign_key titles_null_type ''type'') =
     [(''id'', \<lparr>dtype = Int64T, vals = [Num 1, Num 2, Num 3, Num 4]\<rparr>),
      (''type'', \<lparr>dtype = ObjectT,
                 vals = [Str ''Unknown'', Str ''Movie'', Str ''Movie'', Str ''TV Show'']\<rparr>)]
   \<and> snd (split_with_foreign_key titles_null_type ''type'') \<noteq> titles_null_type"
  by code_simp

text \<open>
  The other half of C2 does hold: \<^verbatim>\<open>split_many_to_many\<close> leaves the caller's table as it
  was, whatever the outcome of the call.
\<close>

lemma many_to_many_keeps_input: "snd (split_many_to_many df l r sep) = df"
  by (simp add: split_many_to_many_def split: option.splits sum.splits)

text \<open>
  Claim C3: with a separator and a row whose right value is null, the right table
  gets exactly one \<^verbatim>\<open>'Unknown'\<close> entry and the junction table has a row that points to it.
  The null is replaced in the right table only (line 127); the exploded rows keep the
  null, so the join of line 134 finds no partner for them. Below, title 1 has a null
  country: \<^verbatim>\<open>'Unknown'\<close> gets id 1 in the right table, and no junction row has
  \<^verbatim>\<open>country_id\<close> 1 or \<^verbatim>\<open>title_id\<close> 1.
\<close>

theorem null_right_value_has_no_junction_row:
  "fst (split_many_to_many titles_null_country ''id'' ''country'' (Some '','')) =
     Inr ([(''id'', \<lparr>dtype = Int64T, vals = [Num 1, Num 2, Num 3]\<rparr>)],
          [(''country'', \<lparr>dtype = StringT, vals = [Str ''Unknown'', Str ''India'']\<rparr>),
           (''id'', \<lparr>dtype = Int64T, vals = [Num 1, Num 2]\<rparr>)],
          [(''title_id'', \<lparr>dtype = Int64T, vals = [Num 2, Num 3]\<rparr>),
           (''country_id'', \<lparr>dtype = Int64T, vals = [Num 2, Num 2]\<rparr>)])
   \<and> Num 1 \<notin> set [Num 2, Num 2]"
  by code_simp



text \<open>
  Claim C5: the child table is the input without the key column and with one new
  integer column named \<^verbatim>\<open>{key_col}_id\<close>. The new column gets that name through the
  renaming of \<^verbatim>\<open>id_parent\<close> (line 56), a label that the join produces only when the input
  already has a column \<^verbatim>\<open>id\<close>. The input below has none, and the new column of its child
  table is named \<^verbatim>\<open>id\<close>: there is no column \<^verbatim>\<open>type_id\<close>.
\<close>

theorem foreign_key_label_without_id:
  "fst (split_with_foreign_key titles_without_id ''type'') =
     Inr ([(''title'', \<lparr>dtype = ObjectT, vals = [Str ''A'', Str ''B'', Str ''C'', Str ''D'']\<rparr>),
           (''id'', \<lparr>dtype = Int64T, vals = [Num 1, Num 2, Num 1, Num 1]\<rparr>)],
          [(''type'', \<lparr>dtype = StringT, vals = [Str ''Movie'', Str ''TV Show'']\<rparr>),
           (''id'', \<lparr>dtype = Int64T, vals = [Num 1, Num 2]\<rparr>)])
   \<and> names [(''title'', \<lparr>dtype = ObjectT, vals = [Str ''A'', Str ''B'', Str ''C'', Str ''D'']\<rparr>),
             (''id'', \<lparr>dtype = Int64T, vals = [Num 1, Num 2, Num 1, Num 1]\<rparr>)] = [''title'', ''id'']"
  by code_simp

text \<open>
  Claim C6: every right foreign key of the junction table is an id of the right
  table. The projection of line 135 takes the columns labelled \<^verbatim>\<open>id_left\<close> and \<^verbatim>\<open>id_right\<close>.
  When these are the labels of the input's own two columns, the projection takes the
  exploded values instead of the surrogate ids: below, the second junction column holds
  the strings \<^verbatim>\<open>'a'\<close> and \<^verbatim>\<open>'b'\<close>, none of which is in the right table's \<^verbatim>\<open>id\<close> column.
\<close>

theorem junction_of_own_labels:
  "fst (split_many_to_many left_right_labels ''id_left'' ''id_right'' (Some '', '')) =
     Inr ([(''id_left'', \<lparr>dtype = Int64T, vals = [Num 1, Num 2, Num 3]\<rparr>)],
          [(''id_right'', \<lparr>dtype = StringT, vals = [Str ''a'', Str ''b'']\<rparr>),
           (''id'', \<lparr>dtype = Int64T, vals = [Num 1, Num 2]\<rparr>)],
          [(''title_id'', \<lparr>dtype = Int64T, vals = [Num 1, Num 1, Num 2, Num 3]\<rparr>),
           (''id_right_id'', \<lparr>dtype = ObjectT, vals = [Str ''a'', Str ''b'', Str ''a'', Str ''a'']\<rparr>)])
   \<and> set [Str ''a'', Str ''b'', Str ''a'', Str ''a''] \<inter> set [Num 1, Num 2] = {}"
  by code_simp

text \<open>
  Claim C7: whatever the names of the input's columns, the call returns a junction
  table with the two columns \<^verbatim>\<open>title_id\<close> and \<^verbatim>\<open>{right_col}_id\<close>. The label \<^verbatim>\<open>id_left\<close> of
  line 135 exists only when the left key column is named \<^verbatim>\<open>id\<close>. With the column names
  of the function's own docstring the call ends in a \<^verbatim>\<open>KeyError\<close> and returns nothing.
\<close>

theorem junction_needs_left_key_id:
  "fst (split_many_to_many students ''student_name'' ''course_name'' (Some '','')) =
     Inl (KeyError ''id_left'')"
  by code_simp

text \<open>
  Claim C8: a key column of containers makes \<^verbatim>\<open>split_with_foreign_key\<close> fail with
  its own error (the \<^verbatim>\<open>ValueError\<close> of line 40). The test of line 39 comes after the two
  calls of \<^verbatim>\<open>nunique()\<close>: on a column of lists pandas raises \<^verbatim>\<open>TypeError\<close> there, and on
  a column of pairwise different tuples the call ends with the error of line 36.
\<close>

theorem containers_rejected_by_other_errors:
  "fst (split_with_foreign_key titles_genre_lists ''genre'') = Inl Unhashable
   \<and> fst (split_with_foreign_key titles_genre_tuples ''genre'') = Inl (AllUnique ''genre'')
   \<and> Unhashable \<noteq> Multivalued ''genre''
   \<and> AllUnique ''genre'' \<noteq> Multivalued ''genre''"
  by code_simp

text \<open>
  Claim C9: with \<^verbatim>\<open>sep=None\<close> and a right column of lists of strings the call
  succeeds. The test of line 98 calls \<^verbatim>\<open>nunique()\<close> on the column of lists, where
  pandas raises \<^verbatim>\<open>TypeError: unhashable type: 'list'\<close>.
\<close>

theorem lists_without_separator_fail:
  "fst (split_many_to_many titles_listed_in ''id'' ''listed_in'' None) = Inl Unhashable"
  by code_simp

text \<open>
  Claim C10: when every value of the left key column is null, \<^verbatim>\<open>split_many_to_many\<close> ends in
  one of the validation errors of the source and returns no table (the caller's table is
  as it was).
\<close>

theorem left_all_null_rejected:
  assumes "map_of df left_col = Some s" and "list_all isnull (vals s)"
  shows "\<exists>e. split_many_to_many df left_col right_col sep = (Inl e, df) \<and> is_validation_error e"
  using validate_left_all_null[OF assms, of right_col]
  by (simp add: split_many_to_many_def is_validation_error_def)

theorem left_all_null_rejected_witness:
  "map_of titles_null_ids ''id'' = Some \<lparr>dtype = ObjectT, vals = [Null, Null, Null]\<rparr>
   \<and> list_all isnull (vals \<lparr>dtype = ObjectT, vals = [Null, Null, Null]\<rparr>)
   \<and> (\<exists>e. split_many_to_many titles_null_ids ''id'' ''country'' (Some '','') = (Inl e, titles_null_ids)
          \<and> is_validation_error e)"
proof -
  have a: "map_of titles_null_ids ''id'' = Some \<lparr>dtype = ObjectT, vals = [Null, Null, Null]\<rparr>"
    by (simp add: titles_null_ids_def)
  have b: "list_all isnull (vals \<lparr>dtype = ObjectT, vals = [Null, Null, Null]\<rparr>)"
    by (simp add: isnull_def)
  from left_all_null_rejected[OF a b, of "''country''" "Some '',''"] a b
  show ?thesis by blast
qed

end
